theory Spec2Isabelle
  imports Main "HOL-Library.Word"
begin

unbundle bit_operations_syntax

section \<open>Machine model\<close>

text \<open>
  The allocator of \<^verbatim>\<open>pb-alloc.c\<close> is modelled for the LP64 little-endian target it
  is written for (it maps a 2 GB region with \<^verbatim>\<open>mmap\<close>): \<^verbatim>\<open>size_t\<close> is an unsigned and
  \<^verbatim>\<open>intptr_t\<close> a signed 64-bit integer, pointers are 64-bit addresses, and
  \<^verbatim>\<open>sizeof(header_s)\<close> is 8. Both integer types are \<open>64 word\<close>: \<open>+\<close>, \<open>-\<close>, \<open>*\<close>
  wrap modulo \<open>2 ^ 64\<close>, \<open>mod\<close>, \<open><\<close> and \<open>\<le>\<close> read the word as unsigned, and
  \<open><s\<close> and \<open>\<le>s\<close> read it as two's complement. In \<^verbatim>\<open>malloc\<close> every sum mixes an
  \<^verbatim>\<open>intptr_t\<close> with a \<^verbatim>\<open>size_t\<close>, so C computes it unsigned; only the comparison
  \<^verbatim>\<open>new_free_addr > end_addr\<close> is between two \<^verbatim>\<open>intptr_t\<close> and hence signed.
\<close>

type_synonym size_t = "64 word"
type_synonym intptr_t = "64 word"
type_synonym addr = "64 word"
type_synonym byte = "8 word"

definition NULL :: addr where
  "NULL = 0"

text \<open>\<^verbatim>\<open>MAP_FAILED\<close> is \<^verbatim>\<open>(void *) -1\<close>.\<close>

definition MAP_FAILED :: addr where
  "MAP_FAILED = - 1"

text \<open>\<^verbatim>\<open>KB\<close>, \<^verbatim>\<open>MB\<close>, \<^verbatim>\<open>GB\<close> and \<^verbatim>\<open>HEAP_SIZE\<close> (lines 39 to 44).\<close>

definition KB :: "size_t \<Rightarrow> size_t" where
  "KB sz = sz * 1024"

definition MB :: "size_t \<Rightarrow> size_t" where
  "MB sz = KB sz * 1024"

definition GB :: "size_t \<Rightarrow> size_t" where
  "GB sz = MB sz * 1024"

definition HEAP_SIZE :: size_t where
  "HEAP_SIZE = GB 2"

definition sizeof_header_s :: size_t where
  "sizeof_header_s = 8"

subsection \<open>The byte store\<close>

text \<open>
  Memory is a store from addresses to bytes. A \<^verbatim>\<open>size_t\<close> occupies eight consecutive
  bytes, least significant first. \<^verbatim>\<open>memset\<close> and \<^verbatim>\<open>memcpy\<close> are the C library's:
  the first sets \<open>n\<close> bytes from \<open>p\<close> on, the second copies \<open>n\<close> bytes from \<open>src\<close> to
  \<open>dst\<close>, reading the store as it was before the copy. An address \<open>a\<close> lies among
  the \<open>n\<close> bytes from \<open>p\<close> on exactly when \<open>a - p < n\<close> (unsigned). The store is
  total: it does not tell mapped from unmapped addresses, so an access that would
  trap on the machine is an ordinary read or write here.
\<close>

definition store_size_t :: "(addr \<Rightarrow> byte) \<Rightarrow> addr \<Rightarrow> size_t \<Rightarrow> (addr \<Rightarrow> byte)" where
  "store_size_t m p v =
     (\<lambda>a. if a - p < 8 then ucast (drop_bit (8 * unat (a - p)) v) else m a)"

definition load_size_t :: "(addr \<Rightarrow> byte) \<Rightarrow> addr \<Rightarrow> size_t" where
  "load_size_t m p =
     foldr (\<lambda>i acc. push_bit 8 acc OR ucast (m (p + i))) [0, 1, 2, 3, 4, 5, 6, 7] 0"

definition memset :: "(addr \<Rightarrow> byte) \<Rightarrow> addr \<Rightarrow> byte \<Rightarrow> size_t \<Rightarrow> (addr \<Rightarrow> byte)" where
  "memset m p c n = (\<lambda>a. if a - p < n then c else m a)"

definition memcpy :: "(addr \<Rightarrow> byte) \<Rightarrow> addr \<Rightarrow> addr \<Rightarrow> size_t \<Rightarrow> (addr \<Rightarrow> byte)" where
  "memcpy m dst src n = (\<lambda>a. if a - dst < n then m (src + (a - dst)) else m a)"

section \<open>The allocator\<close>

text \<open>The three globals of lines 66 to 72, and the memory the allocator writes to.\<close>

record heap_state =
  free_addr :: intptr_t
  start_addr :: intptr_t
  end_addr :: intptr_t
  memory :: "addr \<Rightarrow> byte"

text \<open>
  Modelled from the spec: the macro \<^verbatim>\<open>ERROR\<close> of \<^verbatim>\<open>safeio.h\<close>, a header that is not
  among the sources. A failure to reserve the region is fatal: the process reports it
  and terminates, and no call returns. The result \<open>None\<close> stands for that termination.
\<close>

definition ERROR :: "heap_state option" where
  "ERROR = None"

text \<open>
  \<^verbatim>\<open>init\<close> (lines 82 to 112). The address \<^verbatim>\<open>mmap\<close> answers with is the parameter
  \<open>heap\<close>: it belongs to the operating system, not to the program. The mapping is
  anonymous, so its \<^verbatim>\<open>HEAP_SIZE\<close> bytes read as zero. The \<^verbatim>\<open>DEBUG\<close> messages, of the
  same header as \<^verbatim>\<open>ERROR\<close>, are diagnostic output and leave the state alone.
\<close>

definition init :: "addr \<Rightarrow> heap_state \<Rightarrow> heap_state option" where
  "init heap s =
     (if start_addr s = 0 then
        (if heap = MAP_FAILED then ERROR
         else Some (s\<lparr>start_addr := heap,
                      end_addr := heap + HEAP_SIZE,
                      free_addr := heap,
                      memory := memset (memory s) heap 0 HEAP_SIZE\<rparr>))
      else Some s)"

text \<open>The padding of lines 136 and 137, for the cursor value \<open>fa\<close>.\<close>

definition padding :: "intptr_t \<Rightarrow> size_t" where
  "padding fa =
     (let pad = 16 - ((fa + sizeof_header_s) mod 16)
      in pad mod 16)"

text \<open>
  \<^verbatim>\<open>malloc\<close> (lines 126 to 149). The result is the returned pointer together with the
  state after the call.
\<close>

definition malloc :: "addr \<Rightarrow> size_t \<Rightarrow> heap_state \<Rightarrow> (addr \<times> heap_state) option" where
  "malloc heap size' s =
     (case init heap s of
        None \<Rightarrow> None
      | Some s0 \<Rightarrow>
          if size' = 0 then Some (NULL, s0)
          else
            let total_size = size' + sizeof_header_s;
                pad = padding (free_addr s0);
                header_ptr = free_addr s0 + pad;
                block_ptr = free_addr s0 + pad + sizeof_header_s;
                new_free_addr = free_addr s0 + pad + total_size
            in if end_addr s0 <s new_free_addr then Some (NULL, s0)
               else Some (block_ptr,
                          s0\<lparr>free_addr := new_free_addr,
                             memory := store_size_t (memory s0) header_ptr size'\<rparr>))"

text \<open>\<^verbatim>\<open>free\<close> (lines 161 to 165) only emits a \<^verbatim>\<open>DEBUG\<close> message.\<close>

definition free :: "addr \<Rightarrow> heap_state \<Rightarrow> heap_state" where
  "free ptr s = s"

text \<open>\<^verbatim>\<open>calloc\<close> (lines 179 to 192).\<close>

definition calloc :: "addr \<Rightarrow> size_t \<Rightarrow> size_t \<Rightarrow> heap_state \<Rightarrow> (addr \<times> heap_state) option" where
  "calloc heap nmemb size' s =
     (let block_size = nmemb * size'
      in case malloc heap block_size s of
           None \<Rightarrow> None
         | Some (block_ptr, s1) \<Rightarrow>
             if block_ptr \<noteq> NULL
             then Some (block_ptr, s1\<lparr>memory := memset (memory s1) block_ptr 0 block_size\<rparr>)
             else Some (block_ptr, s1))"

text \<open>\<^verbatim>\<open>realloc\<close> (lines 210 to 234).\<close>

definition realloc :: "addr \<Rightarrow> addr \<Rightarrow> size_t \<Rightarrow> heap_state \<Rightarrow> (addr \<times> heap_state) option" where
  "realloc heap ptr size' s =
     (if ptr = NULL then malloc heap size' s
      else if size' = 0 then Some (NULL, free ptr s)
      else
        let old_header = ptr - sizeof_header_s;
            old_size = load_size_t (memory s) old_header
        in if size' \<le> old_size then Some (ptr, s)
           else
             case malloc heap size' s of
               None \<Rightarrow> None
             | Some (new_ptr, s1) \<Rightarrow>
                 if new_ptr \<noteq> NULL
                 then Some (new_ptr,
                            free ptr (s1\<lparr>memory := memcpy (memory s1) new_ptr ptr old_size\<rparr>))
                 else Some (new_ptr, s1))"

section \<open>Reference states\<close>

text \<open>
  The state of a process that has not called the allocator yet, and a page-aligned
  address of the kind \<^verbatim>\<open>mmap\<close> answers with on Linux.
\<close>

definition fresh :: heap_state where
  "fresh = \<lparr>free_addr = 0, start_addr = 0, end_addr = 0, memory = (\<lambda>a. 0)\<rparr>"

definition heap0 :: addr where
  "heap0 = 0x7F0000000000"

text \<open>The state of that process once the region is reserved and nothing is carved yet.\<close>

definition reserved :: heap_state where
  "reserved = \<lparr>free_addr = heap0, start_addr = heap0, end_addr = heap0 + HEAP_SIZE,
                memory = memset (\<lambda>a. 0) heap0 0 HEAP_SIZE\<rparr>"

text \<open>The largest \<^verbatim>\<open>size_t\<close>.\<close>

definition SIZE_MAX :: size_t where
  "SIZE_MAX = 0xFFFFFFFFFFFFFFFF"

text \<open>
  The state after \<^verbatim>\<open>x = malloc(24)\<close>, the first call of \<^verbatim>\<open>memtest.c\<close>, in a fresh
  process: the header sits at \<open>heap0 + 8\<close>, the payload at \<open>heap0 + 16\<close>.
\<close>

definition s24 :: heap_state where
  "s24 = \<lparr>free_addr = heap0 + 40, start_addr = heap0, end_addr = heap0 + HEAP_SIZE,
           memory = store_size_t (memset (\<lambda>a. 0) heap0 0 HEAP_SIZE) (heap0 + 8) 24\<rparr>"

text \<open>
  A caller that fills the \<open>n\<close> bytes of a block at \<open>p\<close> with a known pattern, byte
  \<open>i\<close> holding \<open>i + 1\<close>, as the content test of \<^verbatim>\<open>memtest.c\<close> fills its array before
  it resizes it.
\<close>

definition fill :: "(addr \<Rightarrow> byte) \<Rightarrow> addr \<Rightarrow> size_t \<Rightarrow> (addr \<Rightarrow> byte)" where
  "fill m p n = (\<lambda>a. if a - p < n then ucast (a - p) + 1 else m a)"

text \<open>The state after \<^verbatim>\<open>x = malloc(24)\<close> with no byte of memory left at zero.\<close>

definition scribbled :: heap_state where
  "scribbled = s24\<lparr>memory := (\<lambda>a. 0xAB)\<rparr>"

section \<open>Properties\<close>

text \<open>The region invariant of the data model: the cursor stays between the bounds.\<close>

definition region_inv :: "heap_state \<Rightarrow> bool" where
  "region_inv s = (start_addr s \<le>s free_addr s \<and> free_addr s \<le>s end_addr s)"

section \<open>A stored size is read back\<close>

lemma byte_step:
  "push_bit 8 (drop_bit (n + 8) v) OR ucast (ucast (drop_bit n v) :: byte) = drop_bit n (v :: 64 word)"
  by (rule bit_word_eqI) (auto simp: bit_simps add.commute le_less_linear dest: bit_imp_le_length)

lemma load_store_same: "load_size_t (store_size_t m p v) p = v"
proof -
  have b: "store_size_t m p v (p + i) = ucast (drop_bit (8 * unat i) v)" if "i < 8" for i
    using that by (simp add: store_size_t_def)
  have b0: "store_size_t m p v p = ucast (drop_bit 0 v)"
    by (simp add: store_size_t_def)
  have s7: "ucast (ucast (drop_bit 56 v) :: byte) = drop_bit 56 v"
    using byte_step [of 56 v] by (simp add: drop_bit_word_beyond)
  have s6: "push_bit 8 (drop_bit 56 v) OR ucast (ucast (drop_bit 48 v) :: byte) = drop_bit 48 v"
    using byte_step [of 48 v] by simp
  have s5: "push_bit 8 (drop_bit 48 v) OR ucast (ucast (drop_bit 40 v) :: byte) = drop_bit 40 v"
    using byte_step [of 40 v] by simp
  have s4: "push_bit 8 (drop_bit 40 v) OR ucast (ucast (drop_bit 32 v) :: byte) = drop_bit 32 v"
    using byte_step [of 32 v] by simp
  have s3: "push_bit 8 (drop_bit 32 v) OR ucast (ucast (drop_bit 24 v) :: byte) = drop_bit 24 v"
    using byte_step [of 24 v] by simp
  have s2: "push_bit 8 (drop_bit 24 v) OR ucast (ucast (drop_bit 16 v) :: byte) = drop_bit 16 v"
    using byte_step [of 16 v] by simp
  have s1: "push_bit 8 (drop_bit 16 v) OR ucast (ucast (drop_bit 8 v) :: byte) = drop_bit 8 v"
    using byte_step [of 8 v] by simp
  have s0: "push_bit 8 (drop_bit 8 v) OR ucast (ucast (drop_bit 0 v) :: byte) = v"
    using byte_step [of 0 v] by simp
  have "load_size_t (store_size_t m p v) p =
     push_bit 8 (push_bit 8 (push_bit 8 (push_bit 8 (push_bit 8 (push_bit 8 (push_bit 8 
      (push_bit 8 0 OR ucast (store_size_t m p v (p + 7)))
       OR ucast (store_size_t m p v (p + 6)))
       OR ucast (store_size_t m p v (p + 5)))
       OR ucast (store_size_t m p v (p + 4)))
       OR ucast (store_size_t m p v (p + 3)))
       OR ucast (store_size_t m p v (p + 2)))
       OR ucast (store_size_t m p v (p + 1)))
       OR ucast (store_size_t m p v p)"
    by (simp add: load_size_t_def)
  also have "\<dots> = 
     push_bit 8 (push_bit 8 (push_bit 8 (push_bit 8 (push_bit 8 (push_bit 8 (push_bit 8 
      (ucast (ucast (drop_bit 56 v) :: byte))
       OR ucast (ucast (drop_bit 48 v) :: byte))
       OR ucast (ucast (drop_bit 40 v) :: byte))
       OR ucast (ucast (drop_bit 32 v) :: byte))
       OR ucast (ucast (drop_bit 24 v) :: byte))
       OR ucast (ucast (drop_bit 16 v) :: byte))
       OR ucast (ucast (drop_bit 8 v) :: byte))
       OR ucast (ucast (drop_bit 0 v) :: byte)"
    using b [of 1] b [of 2] b [of 3] b [of 4] b [of 5] b [of 6] b [of 7] b0
    by simp
  also have "\<dots> = v"
    by (simp only: s7 s6 s5 s4 s3 s2 s1 s0)
  finally show ?thesis .
qed

section \<open>Arithmetic of the padding\<close>

lemma unat_mod16: "unat ((w :: 64 word) mod 16) = unat w mod 16"
  by (simp add: unat_mod)

lemma unat_plus8_mod16: "unat ((c :: 64 word) + 8) mod 16 = (unat c + 8) mod 16"
proof -
  have "unat (c + 8) = (unat c + 8) mod 2 ^ 64"
    by (simp add: unat_word_ariths)
  moreover have "(16 :: nat) dvd 2 ^ 64" by simp
  ultimately show ?thesis by (simp only: mod_mod_cancel)
qed

lemma unat_padding: "unat (padding c) = (16 - (unat c + 8) mod 16) mod 16"
proof -
  let ?r = "(c + 8) mod 16"
  have r: "unat ?r = (unat c + 8) mod 16"
    by (simp only: unat_mod16 unat_plus8_mod16)
  have "?r \<le> 16"
    by (simp add: word_le_nat_alt r)
  then have "unat (16 - ?r) = 16 - unat ?r"
    by (simp add: unat_sub)
  then show ?thesis
    by (simp add: padding_def sizeof_header_s_def Let_def unat_mod unat_plus8_mod16)
qed

lemma round_up_16: "(n + (16 - n mod 16) mod 16) mod 16 = (0 :: nat)"
proof (cases "n mod 16 = 0")
  case True
  then show ?thesis by simp
next
  case False
  then have k: "(16 - n mod 16) mod 16 = 16 - n mod 16"
    by simp
  have "(n + (16 - n mod 16)) mod 16 = (n mod 16 + (16 - n mod 16)) mod 16"
    by (simp only: mod_add_left_eq)
  also have "n mod 16 + (16 - n mod 16) = 16"
    by simp
  finally show ?thesis
    by (simp add: k)
qed

lemma padding_sum_aligned: "(unat c + unat (padding c) + 8) mod 16 = 0"
proof -
  have "unat c + unat (padding c) + 8 = (unat c + 8) + (16 - (unat c + 8) mod 16) mod 16"
    by (simp only: unat_padding add.assoc add.commute [of _ 8])
  then show ?thesis
    by (simp only: round_up_16)
qed

lemma unat_mod16_add: "unat ((a :: 64 word) + b) mod 16 = (unat a + unat b) mod 16"
proof -
  have "unat (a + b) = (unat a + unat b) mod 2 ^ 64"
    by (simp add: unat_word_ariths)
  moreover have "(16 :: nat) dvd 2 ^ 64" by simp
  ultimately show ?thesis by (simp only: mod_mod_cancel)
qed

lemma block_ptr_aligned: "unat (c + padding c + sizeof_header_s) mod 16 = 0"
proof -
  have u8: "unat (8 :: 64 word) = 8" by simp
  have "unat (c + padding c + 8) mod 16 = (unat (c + padding c) + 8) mod 16"
    by (simp only: unat_mod16_add u8)
  also have "\<dots> = (unat (c + padding c) mod 16 + 8) mod 16"
    by (simp only: mod_add_left_eq)
  also have "\<dots> = ((unat c + unat (padding c)) mod 16 + 8) mod 16"
    by (simp only: unat_mod16_add)
  also have "\<dots> = (unat c + unat (padding c) + 8) mod 16"
    by (simp only: mod_add_left_eq)
  also have "\<dots> = 0"
    by (rule padding_sum_aligned)
  finally show ?thesis by (simp only: sizeof_header_s_def)
qed

lemma malloc_aligned: "malloc heap sz s = Some (p, s') \<Longrightarrow> unat p mod 16 = 0"
proof -
  assume m: "malloc heap sz s = Some (p, s')"
  then obtain s0 where i: "init heap s = Some s0"
    by (cases "init heap s") (simp_all add: malloc_def)
  from m i have "p = NULL \<or> p = free_addr s0 + padding (free_addr s0) + sizeof_header_s"
    by (simp add: malloc_def Let_def split: if_splits)
  then show ?thesis
  proof
    assume "p = NULL"
    then show ?thesis by (simp add: NULL_def)
  next
    assume "p = free_addr s0 + padding (free_addr s0) + sizeof_header_s"
    then show ?thesis by (simp only: block_ptr_aligned)
  qed
qed

section \<open>Evaluation on the reference states\<close>

lemmas consts_defs = heap0_def MAP_FAILED_def HEAP_SIZE_def GB_def MB_def KB_def
  sizeof_header_s_def NULL_def

lemmas eval_defs = malloc_def init_def padding_def Let_def word_sless_alt word_sle_eq

lemma malloc_24_fresh: "malloc heap0 24 fresh = Some (heap0 + 16, s24)"
  by (simp add: eval_defs fresh_def s24_def consts_defs)

lemma region_inv_s24: "region_inv s24 \<and> 0 <s start_addr s24"
  by (simp add: region_inv_def s24_def word_sless_alt word_sle_eq consts_defs)

lemma load_s24: "load_size_t (memory s24) (heap0 + 8) = 24"
  by (simp add: s24_def load_store_same)

section \<open>Alignment\<close>

lemma realloc_aligned:
  assumes "unat ptr mod 16 = 0" and "realloc heap ptr sz s = Some (q, s')"
  shows "unat q mod 16 = 0"
proof (cases "ptr = NULL \<or> load_size_t (memory s) (ptr - sizeof_header_s) < sz")
  case True
  with assms(2) have "q = NULL \<or> (\<exists>t. malloc heap sz s = Some (q, t))"
    by (auto simp: realloc_def Let_def free_def split: if_splits option.splits)
  then show ?thesis
    by (auto simp: NULL_def dest: malloc_aligned)
next
  case False
  with assms(2) have "q = NULL \<or> q = ptr"
    by (auto simp: realloc_def Let_def free_def split: if_splits)
  with assms(1) show ?thesis
    by (auto simp: NULL_def)
qed

lemma calloc_aligned: "calloc heap nmemb sz s = Some (p, s') \<Longrightarrow> unat p mod 16 = 0"
  by (auto simp: calloc_def Let_def dest: malloc_aligned split: option.splits if_splits)

text \<open>
  Claim C1. The padding is \<open>(16 - ((cursor + header_size) mod 16)) mod 16\<close>, so
  that \<open>cursor + padding + header_size\<close> is a multiple of 16 for every cursor value,
  and every address that \<^verbatim>\<open>malloc\<close> returns is a multiple of 16. So is every address
  that \<^verbatim>\<open>realloc\<close> returns when it is given a null pointer or a block returned
  earlier, which is itself a multiple of 16. (The null pointer is address 0: the
  statement covers the failing calls as well.)
\<close>

theorem payload_16_aligned:
  "unat (padding c) = (16 - (unat c + unat sizeof_header_s) mod 16) mod 16
   \<and> (unat c + unat (padding c) + unat sizeof_header_s) mod 16 = 0
   \<and> (malloc heap sz s = Some (p, s') \<longrightarrow> unat p mod 16 = 0)
   \<and> (unat ptr mod 16 = 0 \<and> realloc heap ptr sz' t = Some (q, t') \<longrightarrow> unat q mod 16 = 0)"
  using unat_padding [of c] padding_sum_aligned [of c]
    malloc_aligned [of heap sz s p s'] realloc_aligned [of ptr heap sz' t q t']
  by (simp add: sizeof_header_s_def)

theorem payload_16_aligned_witness:
  "malloc heap0 24 fresh = Some (heap0 + 16, s24)
   \<and> unat (heap0 + 16) mod 16 = 0
   \<and> (\<exists>t'. realloc heap0 (heap0 + 16) 40 s24 = Some (heap0 + 48, t'))
   \<and> unat (heap0 + 48) mod 16 = 0"
proof -
  have m: "malloc heap0 24 fresh = Some (heap0 + 16, s24)"
    by (rule malloc_24_fresh)
  have a: "unat (heap0 + 16) mod 16 = 0"
    by (simp add: heap0_def)
  obtain t' where r: "realloc heap0 (heap0 + 16) 40 s24 = Some (heap0 + 48, t')"
    using load_s24 by (simp add: realloc_def eval_defs free_def s24_def consts_defs)
  from payload_16_aligned [of heap0 heap0 24 fresh "heap0 + 16" s24 "heap0 + 16" 40 s24 "heap0 + 48" t']
    m a r show ?thesis
    by blast
qed

section \<open>Signed bounds read as unsigned\<close>

lemma sint_nonneg_unat:
  assumes "0 \<le> sint (w :: 64 word)"
  shows "int (unat w) = sint w" and "unat w < 2 ^ 63"
proof -
  have lt: "sint w < 2 ^ 63"
    using sint_lt [of w] by simp
  then have "take_bit 64 (sint w) = sint w"
    using assms by (simp add: take_bit_int_eq_self)
  then have "uint w = sint w"
    using uint_sint [of w] by simp
  then show e: "int (unat w) = sint w"
    by simp
  from e lt have "int (unat w) < int (2 ^ 63)"
    by simp
  then show "unat w < 2 ^ 63"
    by (simp only: of_nat_less_iff)
qed

lemma region_unat:
  assumes "0 <s start_addr s" and "region_inv s"
  shows "0 < unat (start_addr s)" and "unat (start_addr s) \<le> unat (free_addr s)"
    and "unat (free_addr s) < 2 ^ 63"
proof -
  have a: "0 < sint (start_addr s)" and b: "sint (start_addr s) \<le> sint (free_addr s)"
    using assms by (simp_all add: region_inv_def word_sless_alt word_sle_eq)
  have c: "int (unat (start_addr s)) = sint (start_addr s)"
    by (rule sint_nonneg_unat(1)) (use a in linarith)
  have d: "int (unat (free_addr s)) = sint (free_addr s)"
    by (rule sint_nonneg_unat(1)) (use a b in linarith)
  show "0 < unat (start_addr s)" using a c by linarith
  show "unat (start_addr s) \<le> unat (free_addr s)" using b c d by linarith
  show "unat (free_addr s) < 2 ^ 63" by (rule sint_nonneg_unat(2)) (use a b in linarith)
qed

lemma padding_less: "unat (padding c) < 16"
  by (simp add: unat_padding)

lemma header_ptr_unat:
  assumes "unat c < 2 ^ 63"
  shows "unat (c + padding c) = unat c + unat (padding c)"
proof -
  have "unat c + unat (padding c) < 2 ^ 64"
    using assms padding_less [of c] by simp
  then show ?thesis
    by (simp add: unat_add_lem [THEN iffD1])
qed

lemma block_ptr_unat:
  assumes "unat c < 2 ^ 63"
  shows "unat (c + padding c + sizeof_header_s) = unat c + unat (padding c) + 8"
proof -
  have "unat (c + padding c) + unat (8 :: 64 word) < 2 ^ 64"
    using assms padding_less [of c] by (simp add: header_ptr_unat)
  then have "unat (c + padding c + 8) = unat (c + padding c) + unat (8 :: 64 word)"
    by (simp add: unat_add_lem [THEN iffD1])
  then show ?thesis
    using assms by (simp add: header_ptr_unat sizeof_header_s_def)
qed

section \<open>The outcomes of an allocation\<close>

lemma malloc_cases:
  assumes "start_addr s \<noteq> 0" and "malloc heap sz s = Some (p, s')"
  shows "(p = NULL \<and> s' = s) \<or>
         (sz \<noteq> 0 \<and> p = free_addr s + padding (free_addr s) + sizeof_header_s \<and>
          \<not> end_addr s <s free_addr s + padding (free_addr s) + (sz + sizeof_header_s) \<and>
          s' = s\<lparr>free_addr := free_addr s + padding (free_addr s) + (sz + sizeof_header_s),
                 memory := store_size_t (memory s) (free_addr s + padding (free_addr s)) sz\<rparr>)"
proof -
  have "init heap s = Some s"
    using assms(1) by (simp add: init_def)
  with assms(2) show ?thesis
    by (simp add: malloc_def Let_def split: if_splits)
qed

lemma below_not_within:
  assumes "unat a < unat p" and "unat p \<le> 2 ^ 64 - 8"
  shows "\<not> a - p < (8 :: 64 word)"
proof -
  have "unat (a - p) = unat a + 2 ^ 64 - unat p"
    using assms(1) by (simp add: unat_sub_if_size word_size)
  with assms have "8 \<le> unat (a - p)"
    by simp
  then show ?thesis
    by (simp add: word_less_nat_alt)
qed

lemma block_ptr_not_null:
  assumes "0 <s start_addr s" and "region_inv s"
  shows "free_addr s + padding (free_addr s) + sizeof_header_s \<noteq> NULL"
proof
  assume "free_addr s + padding (free_addr s) + sizeof_header_s = NULL"
  then have "unat (free_addr s + padding (free_addr s) + sizeof_header_s) = 0"
    by (simp add: NULL_def)
  then show False
    using region_unat(3) [OF assms] by (simp add: block_ptr_unat)
qed

lemma start_addr_set: "0 <s start_addr s \<Longrightarrow> start_addr s \<noteq> 0"
  by (auto simp: word_sless_alt)

lemma malloc_null_unchanged:
  assumes "0 <s start_addr s" and "region_inv s" and "malloc heap sz s = Some (NULL, s1)"
  shows "s1 = s"
  using malloc_cases [OF start_addr_set [OF assms(1)] assms(3)]
    block_ptr_not_null [OF assms(1,2)]
  by auto

section \<open>Resizing to a larger size\<close>

text \<open>
  Claim C6. Take a region that has been reserved and satisfies the region invariant
  (so that a block exists at all), a non-null \<open>ptr\<close> and a new size greater than the
  size its header records. When the allocation inside \<^verbatim>\<open>realloc\<close> fails, that is
  \<^verbatim>\<open>malloc\<close> returns the null pointer, \<^verbatim>\<open>realloc\<close> returns the null pointer and the
  whole state is the one before the call: cursor, bounds and every byte of memory,
  hence the contents and the header of the original block. The block is not passed
  to \<^verbatim>\<open>free\<close>.
\<close>

theorem realloc_grow_failure:
  assumes "0 <s start_addr s" and "region_inv s" and "ptr \<noteq> NULL"
    and "load_size_t (memory s) (ptr - sizeof_header_s) < sz"
    and "malloc heap sz s = Some (NULL, s1)"
  shows "realloc heap ptr sz s = Some (NULL, s)"
proof -
  have "s1 = s"
    using assms(1,2,5) by (rule malloc_null_unchanged)
  moreover have "sz \<noteq> 0"
    using assms(4) by auto
  ultimately show ?thesis
    using assms(3,4,5) by (simp add: realloc_def Let_def not_le)
qed

text \<open>
  For a block that ends at or below the cursor of a reserved region satisfying the
  region invariant, growing works as intended. When the allocation inside
  \<^verbatim>\<open>realloc\<close> succeeds with the address \<open>q\<close>, \<^verbatim>\<open>realloc\<close> returns \<open>q\<close>, which differs
  from \<open>ptr\<close>; the first \<open>old_size\<close> bytes at \<open>q\<close> are the bytes the old payload had
  before the call; and apart from them and the eight bytes of the new header, memory
  is what it was before the call.
\<close>

lemma realloc_grow_copies_below_cursor:
  assumes ini: "0 <s start_addr s" and inv: "region_inv s" and nn: "ptr \<noteq> NULL"
    and old: "old_size = load_size_t (memory s) (ptr - sizeof_header_s)"
    and grow: "old_size < sz"
    and below: "unat ptr + unat old_size \<le> unat (free_addr s)"
    and m: "malloc heap sz s = Some (q, s1)" and ok: "q \<noteq> NULL"
  shows "\<exists>s'. realloc heap ptr sz s = Some (q, s') \<and> q \<noteq> ptr
     \<and> (\<forall>i. i < old_size \<longrightarrow> memory s' (q + i) = memory s (ptr + i))
     \<and> (\<forall>a. \<not> a - q < old_size \<and> \<not> a - (q - sizeof_header_s) < sizeof_header_s
            \<longrightarrow> memory s' a = memory s a)"
proof -
  let ?fa = "free_addr s"
  let ?hp = "?fa + padding ?fa"
  define s' where "s' = s1\<lparr>memory := memcpy (memory s1) q ptr old_size\<rparr>"
  have "sz \<noteq> 0"
    using grow by auto
  moreover have "\<not> sz \<le> load_size_t (memory s) (ptr - sizeof_header_s)"
    using grow by (simp add: old not_le)
  ultimately have r: "realloc heap ptr sz s = Some (q, s')"
    using nn m ok by (simp add: realloc_def Let_def free_def s'_def old)
  have q: "q = ?hp + sizeof_header_s" and s1: "memory s1 = store_size_t (memory s) ?hp sz"
    using malloc_cases [OF start_addr_set [OF ini] m] ok by auto
  have mem: "memory s' = memcpy (store_size_t (memory s) ?hp sz) q ptr old_size"
    by (simp add: s'_def s1)
  have hp: "q - 8 = ?hp"
    by (simp add: q sizeof_header_s_def)
  have fa: "unat ?fa < 2 ^ 63"
    using ini inv by (rule region_unat(3))
  have uhp: "unat ?hp = unat ?fa + unat (padding ?fa)"
    using fa by (rule header_ptr_unat)
  have uq: "unat q = unat ?fa + unat (padding ?fa) + 8"
    unfolding q using fa by (rule block_ptr_unat)
  have a: "q \<noteq> ptr"
    using below uq by auto
  have b: "memory s' (q + i) = memory s (ptr + i)" if i: "i < old_size" for i
  proof -
    have "unat i < unat old_size"
      using i by (simp add: word_less_nat_alt)
    then have lt: "unat ptr + unat i < unat ?fa"
      using below by simp
    then have "unat ptr + unat i < 2 ^ 64"
      using fa by simp
    then have "unat (ptr + i) = unat ptr + unat i"
      by (simp add: unat_add_lem [THEN iffD1])
    then have "unat (ptr + i) < unat ?hp"
      using lt uhp by simp
    moreover have "unat ?hp \<le> 2 ^ 64 - 8"
      using fa padding_less [of ?fa] uhp by simp
    ultimately have "\<not> (ptr + i) - ?hp < 8"
      by (rule below_not_within)
    then show ?thesis
      using i by (simp add: mem memcpy_def store_size_t_def)
  qed
  have c: "memory s' a = memory s a"
    if "\<not> a - q < old_size \<and> \<not> a - (q - sizeof_header_s) < sizeof_header_s" for a
    using that by (simp add: mem hp memcpy_def store_size_t_def sizeof_header_s_def)
  from r a b c show ?thesis
    by blast
qed

text \<open>
  Claim C5 says that for every block returned by \<^verbatim>\<open>malloc\<close> whose header records
  \<open>old_size\<close>, a \<^verbatim>\<open>realloc\<close> to a greater size that succeeds returns a different
  address whose first \<open>old_size\<close> bytes equal the old contents byte for byte. The
  code does not keep it. Take \<^verbatim>\<open>x = malloc(32)\<close> in a fresh process and fill the block,
  byte \<open>i\<close> with \<open>i + 1\<close>. The call \<^verbatim>\<open>malloc(2 ^ 64 - 24)\<close> then wraps around: it
  succeeds and leaves the cursor at \<open>heap0 + 40\<close>, inside the payload of \<open>x\<close>, with
  the region invariant still true and the header of \<open>x\<close> still recording 32. Now
  \<^verbatim>\<open>realloc(x, 40)\<close> writes the header of the new block over bytes 24 to 31 of \<open>x\<close>
  before it copies: it returns \<open>heap0 + 48\<close>, and byte 24 of the result is 40 where
  byte 24 of \<open>x\<close> was 25 before the call.
\<close>

theorem realloc_grow_clobbered:
  "\<exists>s1 s2 s3.
     malloc heap0 32 fresh = Some (heap0 + 16, s1)
     \<and> malloc heap0 0xFFFFFFFFFFFFFFE8 (s1\<lparr>memory := fill (memory s1) (heap0 + 16) 32\<rparr>)
         = Some (heap0 + 64, s2)
     \<and> free_addr s2 = heap0 + 40 \<and> region_inv s2
     \<and> load_size_t (memory s2) (heap0 + 16 - sizeof_header_s) = 32
     \<and> (32 :: size_t) < 40 \<and> (24 :: size_t) < 32
     \<and> memory s2 (heap0 + 16 + 24) = 25
     \<and> realloc heap0 (heap0 + 16) 40 s2 = Some (heap0 + 48, s3)
     \<and> heap0 + 48 \<noteq> NULL
     \<and> memory s3 (heap0 + 48 + 24) = 40"
  apply (simp add: eval_defs fresh_def consts_defs)
  apply (simp add: load_size_t_def fill_def store_size_t_def memset_def region_inv_def word_sle_eq)
  apply (simp add: realloc_def eval_defs free_def consts_defs load_size_t_def fill_def store_size_t_def memset_def memcpy_def)
  done

theorem realloc_grow_failure_witness:
  "malloc heap0 0x80000000 s24 = Some (NULL, s24)
   \<and> load_size_t (memory s24) (heap0 + 16 - sizeof_header_s) < 0x80000000
   \<and> realloc heap0 (heap0 + 16) 0x80000000 s24 = Some (NULL, s24)"
proof -
  have h1: "0 <s start_addr s24" and h2: "region_inv s24"
    using region_inv_s24 by simp_all
  have h3: "heap0 + 16 \<noteq> NULL"
    by (simp add: consts_defs)
  have h4: "load_size_t (memory s24) (heap0 + 16 - sizeof_header_s) < 0x80000000"
    using load_s24 by (simp add: consts_defs)
  have h5: "malloc heap0 0x80000000 s24 = Some (NULL, s24)"
    by (simp add: eval_defs s24_def consts_defs)
  from realloc_grow_failure [OF h1 h2 h3 h4 h5] h4 h5 show ?thesis
    by simp
qed

section \<open>The region initialisation\<close>

lemma init_fatal: "init MAP_FAILED fresh = None" and "malloc MAP_FAILED sz fresh = None"
  by (simp_all add: malloc_def init_def fresh_def ERROR_def)

lemma init_fresh: "init heap0 fresh = Some reserved"
  by (simp add: init_def fresh_def reserved_def consts_defs)

lemma init_reserved: "start_addr s \<noteq> 0 \<Longrightarrow> init heap s = Some s"
  by (simp add: init_def)

section \<open>Requests of size zero\<close>

text \<open>
  Claim C7 says that \<^verbatim>\<open>malloc(0)\<close> returns the null pointer and mutates no state:
  cursor, region bounds and memory stay as they are. \<^verbatim>\<open>malloc\<close> calls \<^verbatim>\<open>init\<close>
  before it looks at the size, so the very first call of a process, also with size 0,
  reserves the region: the bounds and the cursor change from 0 to the reserved range.
\<close>

theorem malloc_zero_first_call_counterexample:
  "malloc heap0 0 fresh = Some (NULL, reserved)
   \<and> free_addr reserved \<noteq> free_addr fresh
   \<and> start_addr reserved \<noteq> start_addr fresh
   \<and> end_addr reserved \<noteq> end_addr fresh"
  by (simp add: malloc_def init_fresh) (simp add: fresh_def reserved_def consts_defs)

text \<open>
  Claim C7, amended. Whenever the region initialisation at the start of \<^verbatim>\<open>malloc\<close>
  does not fail, \<^verbatim>\<open>malloc(0)\<close> returns the null pointer and the state after the call is
  the state that initialisation leaves: no block is carved and no header written. On
  a region that is already reserved the state is not mutated at all; on the first
  call the bounds are set to the reserved range and the cursor to its start.
\<close>

theorem malloc_zero_size:
  "(init heap s = Some s0 \<longrightarrow> malloc heap 0 s = Some (NULL, s0))
   \<and> (start_addr s \<noteq> 0 \<longrightarrow> malloc heap 0 s = Some (NULL, s))
   \<and> (start_addr s = 0 \<and> init heap s = Some s0 \<longrightarrow>
        start_addr s0 = heap \<and> end_addr s0 = heap + HEAP_SIZE \<and> free_addr s0 = heap)"
proof -
  have "start_addr s0 = heap \<and> end_addr s0 = heap + HEAP_SIZE \<and> free_addr s0 = heap"
    if "start_addr s = 0" and "init heap s = Some s0"
    using that by (auto simp: init_def ERROR_def split: if_splits)
  then show ?thesis
    by (simp add: malloc_def init_reserved)
qed

theorem malloc_zero_size_witness:
  "init heap0 fresh = Some reserved \<and> malloc heap0 0 fresh = Some (NULL, reserved)
   \<and> start_addr s24 \<noteq> 0 \<and> malloc heap0 0 s24 = Some (NULL, s24)"
proof -
  have a: "start_addr s24 \<noteq> 0"
    by (simp add: s24_def heap0_def)
  from malloc_zero_size [of heap0 fresh reserved] malloc_zero_size [of heap0 s24 s24]
    init_fresh a
  show ?thesis
    by simp
qed

section \<open>Resizing to a size that fits\<close>

text \<open>
  Claim C4 lets the new size be any size up to the old one, which includes 0. For a
  block of 24 bytes and the new size 0, \<^verbatim>\<open>realloc\<close> takes its branch for size 0, which
  comes before the header is read: it calls \<^verbatim>\<open>free\<close> and returns the null pointer,
  not the address of the block.
\<close>

theorem realloc_to_zero_counterexample:
  "malloc heap0 24 fresh = Some (heap0 + 16, s24)
   \<and> load_size_t (memory s24) (heap0 + 16 - sizeof_header_s) = 24
   \<and> (0 :: size_t) \<le> 24
   \<and> realloc heap0 (heap0 + 16) 0 s24 = Some (NULL, s24)
   \<and> NULL \<noteq> heap0 + 16"
  using malloc_24_fresh load_s24
  by (simp add: realloc_def free_def consts_defs)

lemma malloc_header:
  assumes "malloc heap old_size s0 = Some (x, s1)" and "x \<noteq> NULL"
  shows "load_size_t (memory s1) (x - sizeof_header_s) = old_size"
proof -
  obtain t where i: "init heap s0 = Some t"
    using assms(1) by (cases "init heap s0") (simp_all add: malloc_def)
  from assms i
  have "x = free_addr t + padding (free_addr t) + sizeof_header_s"
    and "memory s1 = store_size_t (memory t) (free_addr t + padding (free_addr t)) old_size"
    by (auto simp: malloc_def Let_def split: if_splits)
  then show ?thesis
    by (simp add: load_store_same)
qed

text \<open>
  Claim C4, amended. For a non-null \<open>ptr\<close> whose header records \<open>old_size\<close>, a call of
  \<^verbatim>\<open>realloc\<close> with a new size that is not 0 and at most \<open>old_size\<close> returns \<open>ptr\<close> and
  leaves the whole state as it is: nothing is copied or moved, the cursor stays, and
  the header still records \<open>old_size\<close>. The header of a block that \<^verbatim>\<open>malloc\<close> returns
  records the size requested.
\<close>

theorem realloc_shrink_identity:
  "(ptr \<noteq> NULL \<and> sz \<noteq> 0 \<and> sz \<le> load_size_t (memory s) (ptr - sizeof_header_s)
      \<longrightarrow> realloc heap ptr sz s = Some (ptr, s))
   \<and> (malloc heap old_size s0 = Some (x, s1) \<and> x \<noteq> NULL
      \<longrightarrow> load_size_t (memory s1) (x - sizeof_header_s) = old_size)"
  using malloc_header [of heap old_size s0 x s1]
  by (simp add: realloc_def Let_def)

theorem realloc_shrink_identity_witness:
  "malloc heap0 24 fresh = Some (heap0 + 16, s24)
   \<and> load_size_t (memory s24) (heap0 + 16 - sizeof_header_s) = 24
   \<and> realloc heap0 (heap0 + 16) 24 s24 = Some (heap0 + 16, s24)
   \<and> realloc heap0 (heap0 + 16) 22 s24 = Some (heap0 + 16, s24)"
proof -
  have n: "heap0 + 16 \<noteq> NULL"
    by (simp add: consts_defs)
  note m = malloc_24_fresh
  from realloc_shrink_identity [of "heap0 + 16" 24 s24 heap0 24 fresh "heap0 + 16" s24] m n
  have h: "load_size_t (memory s24) (heap0 + 16 - sizeof_header_s) = 24"
    and a: "realloc heap0 (heap0 + 16) 24 s24 = Some (heap0 + 16, s24)"
    by simp_all
  from realloc_shrink_identity [of "heap0 + 16" 22 s24 heap0 24 fresh "heap0 + 16" s24] n h
  have b: "realloc heap0 (heap0 + 16) 22 s24 = Some (heap0 + 16, s24)"
    by simp
  from m h a b show ?thesis
    by simp
qed

section \<open>Zero-filled allocation\<close>

text \<open>
  Claim C8. When the allocation of \<open>nmemb * size\<close> bytes inside
  \<^verbatim>\<open>calloc(nmemb, size)\<close> succeeds with the address \<open>p\<close>, \<^verbatim>\<open>calloc\<close> returns \<open>p\<close> and
  every one of the \<open>nmemb * size\<close> bytes from \<open>p\<close> on is 0 in the state after the
  call. No other byte is written after the allocation, and the cursor is where the
  allocation left it. The product is the one \<^verbatim>\<open>calloc\<close> computes, in \<^verbatim>\<open>size_t\<close>.
\<close>

theorem calloc_zero_filled:
  assumes "malloc heap (nmemb * sz) s = Some (p, s1)" and "p \<noteq> NULL"
  shows "\<exists>s'. calloc heap nmemb sz s = Some (p, s')
     \<and> (\<forall>i. i < nmemb * sz \<longrightarrow> memory s' (p + i) = 0)
     \<and> (\<forall>a. \<not> a - p < nmemb * sz \<longrightarrow> memory s' a = memory s1 a)
     \<and> free_addr s' = free_addr s1"
proof -
  define s' where "s' = s1\<lparr>memory := memset (memory s1) p 0 (nmemb * sz)\<rparr>"
  have "calloc heap nmemb sz s = Some (p, s')"
    using assms by (simp add: calloc_def Let_def s'_def)
  moreover have "memory s' (p + i) = 0" if "i < nmemb * sz" for i
    using that by (simp add: s'_def memset_def)
  moreover have "memory s' a = memory s1 a" if "\<not> a - p < nmemb * sz" for a
    using that by (simp add: s'_def memset_def)
  moreover have "free_addr s' = free_addr s1"
    by (simp add: s'_def)
  ultimately show ?thesis
    by blast
qed

theorem calloc_zero_filled_witness:
  "\<exists>s1 t. malloc heap0 (3 * 8) scribbled = Some (heap0 + 48, s1) \<and> heap0 + 48 \<noteq> NULL
     \<and> memory s1 (heap0 + 48 + 23) = 0xAB
     \<and> calloc heap0 3 8 scribbled = Some (heap0 + 48, t)
     \<and> memory t (heap0 + 48 + 23) = 0
     \<and> memory t (heap0 + 48 + 24) = 0xAB"
proof -
  obtain s1 where m: "malloc heap0 (3 * 8) scribbled = Some (heap0 + 48, s1)"
    and d: "memory s1 (heap0 + 48 + 23) = 0xAB" and e: "memory s1 (heap0 + 48 + 24) = 0xAB"
    by (simp add: eval_defs scribbled_def s24_def store_size_t_def consts_defs)
  have n: "heap0 + 48 \<noteq> NULL"
    by (simp add: consts_defs)
  from calloc_zero_filled [OF m n] obtain t
    where c: "calloc heap0 3 8 scribbled = Some (heap0 + 48, t)"
      and z: "\<forall>i. i < 3 * 8 \<longrightarrow> memory t (heap0 + 48 + i) = 0"
      and f: "\<forall>a. \<not> a - (heap0 + 48) < 3 * 8 \<longrightarrow> memory t a = memory s1 a"
    by blast
  from z have "(23 :: size_t) < 3 * 8 \<longrightarrow> memory t (heap0 + 48 + 23) = 0"
    by (rule spec)
  moreover have "(23 :: size_t) < 3 * 8"
    by simp
  ultimately have z23: "memory t (heap0 + 48 + 23) = 0"
    by (rule mp)
  from f have "\<not> (heap0 + 48 + 24) - (heap0 + 48) < (3 * 8 :: size_t)
      \<longrightarrow> memory t (heap0 + 48 + 24) = memory s1 (heap0 + 48 + 24)"
    by (rule spec)
  moreover have "\<not> (heap0 + 48 + 24) - (heap0 + 48) < (3 * 8 :: size_t)"
    by simp
  ultimately have "memory t (heap0 + 48 + 24) = memory s1 (heap0 + 48 + 24)"
    by (rule mp)
  with e have f24: "memory t (heap0 + 48 + 24) = 0xAB"
    by (simp only:)
  from m n d c z23 f24 show ?thesis
    by blast
qed

text \<open>
  Claim C10. When the element count or the element size is 0, the total that
  \<^verbatim>\<open>calloc\<close> computes is 0, the inner \<^verbatim>\<open>malloc(0)\<close> returns the null pointer and so
  does \<^verbatim>\<open>calloc\<close>; nothing is allocated: the state after the call is the one the
  region initialisation leaves, and the very state before the call when the region
  is reserved already. The call returns whenever that initialisation does not fail.
\<close>

theorem calloc_zero_count_or_size:
  assumes "nmemb = 0 \<or> sz = 0" and "init heap s = Some s0"
  shows "nmemb * sz = 0 \<and> malloc heap (nmemb * sz) s = Some (NULL, s0)
     \<and> calloc heap nmemb sz s = Some (NULL, s0)
     \<and> (start_addr s \<noteq> 0 \<longrightarrow> s0 = s)"
proof -
  have z: "nmemb * sz = 0"
    using assms(1) by auto
  have m: "malloc heap 0 s = Some (NULL, s0)"
    using assms(2) by (simp add: malloc_def)
  have "start_addr s \<noteq> 0 \<longrightarrow> s0 = s"
    using assms(2) by (auto simp: init_def)
  with z m show ?thesis
    by (simp add: calloc_def)
qed

theorem calloc_zero_count_or_size_witness:
  "calloc heap0 0 8 s24 = Some (NULL, s24) \<and> calloc heap0 5 0 fresh = Some (NULL, reserved)"
proof -
  have a: "(0 :: size_t) = 0 \<or> (8 :: size_t) = 0" and b: "(5 :: size_t) = 0 \<or> (0 :: size_t) = 0"
    by simp_all
  have i: "init heap0 s24 = Some s24"
    by (simp add: init_def s24_def heap0_def)
  from calloc_zero_count_or_size [OF a i] calloc_zero_count_or_size [OF b init_fresh]
  show ?thesis
    by simp
qed

text \<open>
  Claim C9 says that whenever the mathematical product of count and size exceeds the
  range of \<^verbatim>\<open>size_t\<close>, the caller receives an undersized allocation rather than a
  failure. For count and size both \<open>2 ^ 32\<close> the product is \<open>2 ^ 64\<close> and wraps to 0:
  the request is \<^verbatim>\<open>malloc(0)\<close> and the caller receives the null pointer.
\<close>

theorem calloc_overflow_null_counterexample:
  "2 ^ 64 \<le> unat (0x100000000 :: size_t) * unat (0x100000000 :: size_t)
   \<and> calloc heap0 0x100000000 0x100000000 s24 = Some (NULL, s24)"
  by (simp add: calloc_def malloc_def init_def s24_def consts_defs)

text \<open>
  Claim C9, amended. \<^verbatim>\<open>calloc\<close> does not check the multiplication: the total is the
  product modulo \<open>2 ^ 64\<close>, smaller than the mathematical product whenever that
  exceeds the range of \<^verbatim>\<open>size_t\<close>, and the request is made for this total: the call
  returns the address that \<^verbatim>\<open>malloc\<close> of the wrapped total returns and moves the
  cursor as that \<^verbatim>\<open>malloc\<close> does. So the caller receives an undersized block when
  that request succeeds, and the null pointer when it fails.
\<close>

theorem calloc_product_wraps:
  "unat (nmemb * sz) = (unat nmemb * unat sz) mod 2 ^ 64
   \<and> (2 ^ 64 \<le> unat nmemb * unat sz \<longrightarrow> unat (nmemb * sz) < unat nmemb * unat sz)
   \<and> map_option fst (calloc heap nmemb sz s) = map_option fst (malloc heap (nmemb * sz) s)
   \<and> map_option (free_addr \<circ> snd) (calloc heap nmemb sz s)
       = map_option (free_addr \<circ> snd) (malloc heap (nmemb * sz) s)"
proof -
  have w: "unat (nmemb * sz) = (unat nmemb * unat sz) mod 2 ^ 64"
    by (simp add: unat_word_ariths)
  have "unat (nmemb * sz) < 2 ^ 64"
    by (simp only: w) simp
  then have u: "2 ^ 64 \<le> unat nmemb * unat sz \<longrightarrow> unat (nmemb * sz) < unat nmemb * unat sz"
    by simp
  have r: "map_option fst (calloc heap nmemb sz s) = map_option fst (malloc heap (nmemb * sz) s)"
    and c: "map_option (free_addr \<circ> snd) (calloc heap nmemb sz s)
       = map_option (free_addr \<circ> snd) (malloc heap (nmemb * sz) s)"
    by (simp_all add: calloc_def Let_def split: option.splits)
  from w u r c show ?thesis
    by blast
qed

theorem calloc_product_wraps_witness:
  "2 ^ 64 \<le> unat (0x2000000000000001 :: size_t) * unat (8 :: size_t)
   \<and> unat (0x2000000000000001 * 8 :: size_t) = 8
   \<and> unat (0x2000000000000001 * 8 :: size_t) < unat (0x2000000000000001 :: size_t) * unat (8 :: size_t)
   \<and> map_option fst (malloc heap0 8 s24) = Some (heap0 + 48)
   \<and> map_option fst (calloc heap0 0x2000000000000001 8 s24) = Some (heap0 + 48)"
proof -
  have o: "2 ^ 64 \<le> unat (0x2000000000000001 :: size_t) * unat (8 :: size_t)"
    by simp
  have p: "(0x2000000000000001 * 8 :: size_t) = 8"
    by simp
  have m: "map_option fst (malloc heap0 8 s24) = Some (heap0 + 48)"
    by (simp add: eval_defs s24_def consts_defs)
  note g = calloc_product_wraps [of "0x2000000000000001" 8 heap0 s24, unfolded p]
  from g m have c: "map_option fst (calloc heap0 0x2000000000000001 8 s24) = Some (heap0 + 48)"
    by simp
  from g o have l: "unat (8 :: size_t) < unat (0x2000000000000001 :: size_t) * unat (8 :: size_t)"
    by blast
  from o l m c show ?thesis
    by (simp only: p) simp
qed

section \<open>Requests that wrap around\<close>

text \<open>
  Claim C3 says that \<^verbatim>\<open>malloc\<close> of a size greater than 0 with
  \<open>cursor + padding + header_size + size > end\<close> returns the null pointer and leaves
  the cursor unchanged. The code computes \<^verbatim>\<open>size + sizeof(header_s)\<close> and the new
  cursor in 64 bits. For the size \<^verbatim>\<open>SIZE_MAX\<close>, after \<^verbatim>\<open>x = malloc(24)\<close>, the total
  wraps to 7 and the new cursor to \<open>heap0 + 47\<close>, which is not beyond the end: the
  call returns the non-null address \<open>heap0 + 48\<close> and moves the cursor from
  \<open>heap0 + 40\<close> to \<open>heap0 + 47\<close>.
\<close>

theorem malloc_size_max_succeeds:
  "\<exists>s'. malloc heap0 SIZE_MAX s24 = Some (heap0 + 48, s') \<and> heap0 + 48 \<noteq> NULL
     \<and> SIZE_MAX \<noteq> 0
     \<and> unat (end_addr s24)
         < unat (free_addr s24) + unat (padding (free_addr s24)) + unat sizeof_header_s
           + unat SIZE_MAX
     \<and> free_addr s24 = heap0 + 40 \<and> free_addr s' = heap0 + 47"
  by (simp add: eval_defs s24_def SIZE_MAX_def consts_defs)

text \<open>
  Claim C2 says that after every operation the cursor lies between the bounds, that
  it never decreases, and that the payload ranges of two successful allocations never
  overlap. After \<^verbatim>\<open>x = malloc(24)\<close>, the call \<^verbatim>\<open>malloc(2 ^ 63)\<close> computes a new cursor
  that is negative as an \<^verbatim>\<open>intptr_t\<close>, hence not greater than the end: the call
  succeeds and leaves the cursor below the start and below its previous value. And
  \<^verbatim>\<open>malloc(SIZE_MAX)\<close> followed by \<^verbatim>\<open>malloc(24)\<close> returns \<open>heap0 + 48\<close> and then
  \<open>heap0 + 64\<close>, which lies inside the \<^verbatim>\<open>SIZE_MAX\<close> bytes of the first block.
\<close>

theorem malloc_overflow_breaks_region:
  "(\<exists>s'. malloc heap0 (2 ^ 63) s24 = Some (heap0 + 48, s') \<and> heap0 + 48 \<noteq> NULL
      \<and> region_inv s24 \<and> \<not> region_inv s' \<and> free_addr s' <s free_addr s24)
   \<and> map_option fst (malloc heap0 SIZE_MAX s24) = Some (heap0 + 48)
   \<and> map_option fst (Option.bind (malloc heap0 SIZE_MAX s24) (\<lambda>(x, t). malloc heap0 24 t))
       = Some (heap0 + 64)
   \<and> unat (heap0 + 48) \<le> unat (heap0 + 64)
   \<and> unat (heap0 + 64) < unat (heap0 + 48) + unat SIZE_MAX"
  by (simp add: eval_defs s24_def SIZE_MAX_def region_inv_def consts_defs)

section \<open>Allocation without wrap-around\<close>

lemma unat_small_sint:
  assumes "unat (w :: 64 word) < 2 ^ 63"
  shows "sint w = int (unat w)"
proof -
  have "int (unat w) < int (2 ^ 63)"
    using assms by (simp only: of_nat_less_iff)
  then have "uint w < 2 ^ 63"
    by simp
  moreover have "- (2 ^ 63) \<le> uint w"
  proof -
    have "- (2 ^ 63) \<le> (0 :: int)" by simp
    also have "0 \<le> uint w" by simp
    finally show ?thesis .
  qed
  ultimately have "signed_take_bit 63 (uint w) = uint w"
    by (rule signed_take_bit_int_eq_self [rotated])
  then show ?thesis
    by (simp add: sint_uint)
qed

text \<open>
  The wrap-around is the only way in which \<^verbatim>\<open>malloc\<close> leaves the region invariant.
  In a reserved region that satisfies it, a request whose size keeps
  \<open>cursor + size + 23\<close> below \<open>2 ^ 63\<close> preserves the invariant, never moves the
  cursor back, places the block between the old and the new cursor, fails without a
  change of state exactly when the block does not fit below the end, and two
  successive blocks do not overlap.
\<close>

lemma new_free_addr_unat:
  assumes "unat c + unat sz + 23 < 2 ^ 63"
  shows "unat (c + padding c + (sz + sizeof_header_s)) = unat c + unat (padding c) + unat sz + 8"
proof -
  have c: "unat c < 2 ^ 63"
    using assms by simp
  have a: "unat (c + padding c) = unat c + unat (padding c)"
    using c by (rule header_ptr_unat)
  have "unat sz + unat (8 :: 64 word) < 2 ^ 64"
    using assms by simp
  then have b: "unat (sz + 8) = unat sz + 8"
    by (simp add: unat_add_lem [THEN iffD1])
  have "unat (c + padding c) + unat (sz + 8) < 2 ^ 64"
    using assms padding_less [of c] by (simp add: a b)
  then have "unat (c + padding c + (sz + 8)) = unat (c + padding c) + unat (sz + 8)"
    by (simp add: unat_add_lem [THEN iffD1])
  then show ?thesis
    by (simp add: a b sizeof_header_s_def)
qed

lemma new_free_addr_sint:
  assumes "unat c + unat sz + 23 < 2 ^ 63"
  shows "sint (c + padding c + (sz + sizeof_header_s))
    = int (unat c + unat (padding c) + unat sz + 8)"
proof -
  have "unat (c + padding c + (sz + sizeof_header_s)) < 2 ^ 63"
    using assms padding_less [of c] by (simp add: new_free_addr_unat)
  then show ?thesis
    using assms by (simp only: unat_small_sint new_free_addr_unat)
qed

lemma malloc_no_wrap:
  assumes ini: "0 <s start_addr s" and inv: "region_inv s"
    and small: "unat (free_addr s) + unat sz + 23 < 2 ^ 63"
    and m: "malloc heap sz s = Some (p, s')"
  shows "region_inv s'" and "free_addr s \<le>s free_addr s'"
    and "start_addr s' = start_addr s" and "end_addr s' = end_addr s"
    and "p \<noteq> NULL \<Longrightarrow>
         unat p = unat (free_addr s) + unat (padding (free_addr s)) + 8
         \<and> unat p + unat sz = unat (free_addr s')"
    and "p = NULL \<Longrightarrow> s' = s"
proof -
  let ?fa = "free_addr s"
  let ?new = "?fa + padding ?fa + (sz + sizeof_header_s)"
  have fa: "unat ?fa < 2 ^ 63"
    using ini inv by (rule region_unat(3))
  have sfa: "sint ?fa = int (unat ?fa)"
    using fa by (rule unat_small_sint)
  have snew: "sint ?new = int (unat ?fa + unat (padding ?fa) + unat sz + 8)"
    using small by (rule new_free_addr_sint)
  have unew: "unat ?new = unat ?fa + unat (padding ?fa) + unat sz + 8"
    using small by (rule new_free_addr_unat)
  have ublk: "unat (?fa + padding ?fa + sizeof_header_s) = unat ?fa + unat (padding ?fa) + 8"
    using fa by (rule block_ptr_unat)
  have nn: "?fa + padding ?fa + sizeof_header_s \<noteq> NULL"
    using ini inv by (rule block_ptr_not_null)
  from malloc_cases [OF start_addr_set [OF ini] m]
  consider (null) "p = NULL" "s' = s"
    | (ok) "p = ?fa + padding ?fa + sizeof_header_s" "\<not> end_addr s <s ?new"
        "s' = s\<lparr>free_addr := ?new, memory := store_size_t (memory s) (?fa + padding ?fa) sz\<rparr>"
    by blast
  then have "region_inv s' \<and> free_addr s \<le>s free_addr s'
     \<and> start_addr s' = start_addr s \<and> end_addr s' = end_addr s
     \<and> (p \<noteq> NULL \<longrightarrow> unat p = unat ?fa + unat (padding ?fa) + 8
           \<and> unat p + unat sz = unat (free_addr s'))
     \<and> (p = NULL \<longrightarrow> s' = s)"
  proof cases
    case null
    with inv show ?thesis by (simp add: word_sle_eq)
  next
    case ok
    have a: "sint (start_addr s) \<le> sint ?fa"
      using inv by (simp add: region_inv_def word_sle_eq)
    have b: "sint ?fa \<le> sint ?new"
      unfolding sfa snew by simp
    have c: "sint ?new \<le> sint (end_addr s)"
      using ok(2) by (simp add: word_sless_alt)
    from a b have d: "sint (start_addr s) \<le> sint ?new"
      by (rule order_trans)
    from b c d have "region_inv s'" and "free_addr s \<le>s free_addr s'"
      by (simp_all add: ok(3) region_inv_def word_sle_eq)
    moreover have "unat p = unat ?fa + unat (padding ?fa) + 8"
      unfolding ok(1) by (rule ublk)
    moreover have "unat p + unat sz = unat (free_addr s')"
      by (simp add: ok(1,3) ublk unew)
    moreover have "p \<noteq> NULL"
      unfolding ok(1) by (rule nn)
    moreover have "start_addr s' = start_addr s" and "end_addr s' = end_addr s"
      by (simp_all add: ok(3))
    ultimately show ?thesis
      by blast
  qed
  then show "region_inv s'" and "free_addr s \<le>s free_addr s'"
    and "start_addr s' = start_addr s" and "end_addr s' = end_addr s"
    and "p \<noteq> NULL \<Longrightarrow>
         unat p = unat (free_addr s) + unat (padding (free_addr s)) + 8
         \<and> unat p + unat sz = unat (free_addr s')"
    and "p = NULL \<Longrightarrow> s' = s"
    by blast+
qed

lemma end_addr_sint:
  assumes "0 <s start_addr s" and "region_inv s"
  shows "sint (end_addr s) = int (unat (end_addr s))"
proof -
  have "0 < sint (start_addr s)" and "sint (start_addr s) \<le> sint (free_addr s)"
    and "sint (free_addr s) \<le> sint (end_addr s)"
    using assms by (simp_all add: region_inv_def word_sless_alt word_sle_eq)
  then have "0 \<le> sint (end_addr s)"
    by linarith
  then show ?thesis
    by (rule sint_nonneg_unat(1) [symmetric])
qed

lemma malloc_exhausted_no_wrap:
  assumes ini: "0 <s start_addr s" and inv: "region_inv s"
    and small: "unat (free_addr s) + unat sz + 23 < 2 ^ 63"
    and over: "unat (end_addr s)
      < unat (free_addr s) + unat (padding (free_addr s)) + unat sz + 8"
  shows "malloc heap sz s = Some (NULL, s)"
proof -
  have "sint (end_addr s)
      < sint (free_addr s + padding (free_addr s) + (sz + sizeof_header_s))"
    unfolding end_addr_sint [OF ini inv] new_free_addr_sint [OF small]
    using over by (simp only: of_nat_less_iff)
  then show ?thesis
    using start_addr_set [OF ini] by (simp add: malloc_def init_def Let_def word_sless_alt)
qed

lemma malloc_fits_no_wrap:
  assumes ini: "0 <s start_addr s" and inv: "region_inv s"
    and small: "unat (free_addr s) + unat sz + 23 < 2 ^ 63"
    and pos: "sz \<noteq> 0"
    and fits: "unat (free_addr s) + unat (padding (free_addr s)) + unat sz + 8
      \<le> unat (end_addr s)"
  shows "\<exists>s'. malloc heap sz s
      = Some (free_addr s + padding (free_addr s) + sizeof_header_s, s')
    \<and> free_addr s + padding (free_addr s) + sizeof_header_s \<noteq> NULL"
proof -
  have "\<not> sint (end_addr s)
      < sint (free_addr s + padding (free_addr s) + (sz + sizeof_header_s))"
    unfolding end_addr_sint [OF ini inv] new_free_addr_sint [OF small]
    using fits by (simp only: of_nat_less_iff not_less)
  then show ?thesis
    using start_addr_set [OF ini] pos block_ptr_not_null [OF ini inv]
    by (simp add: malloc_def init_def Let_def word_sless_alt)
qed

lemma successive_blocks_disjoint:
  assumes ini: "0 <s start_addr s" and inv: "region_inv s"
    and small1: "unat (free_addr s) + unat sz1 + 23 < 2 ^ 63"
    and m1: "malloc heap sz1 s = Some (p1, s1)" and ok1: "p1 \<noteq> NULL"
    and small2: "unat (free_addr s1) + unat sz2 + 23 < 2 ^ 63"
    and m2: "malloc heap sz2 s1 = Some (p2, s2)" and ok2: "p2 \<noteq> NULL"
  shows "unat p1 + unat sz1 + 8 \<le> unat p2"
proof -
  have e: "unat p1 + unat sz1 = unat (free_addr s1)"
    using malloc_no_wrap(5) [OF ini inv small1 m1 ok1] by simp
  have ini1: "0 <s start_addr s1"
    using malloc_no_wrap(3) [OF ini inv small1 m1] ini by simp
  have inv1: "region_inv s1"
    using ini inv small1 m1 by (rule malloc_no_wrap(1))
  have "unat p2 = unat (free_addr s1) + unat (padding (free_addr s1)) + 8"
    using malloc_no_wrap(5) [OF ini1 inv1 small2 m2 ok2] by simp
  with e show ?thesis
    by simp
qed

text \<open>
  A block that \<^verbatim>\<open>malloc\<close> has just carved without wrap-around ends at the cursor and
  its header records the size requested, so growing it keeps its contents.
\<close>

lemma fresh_block_grow_copies:
  assumes ini: "0 <s start_addr s" and inv: "region_inv s"
    and small: "unat (free_addr s) + unat sz0 + 23 < 2 ^ 63"
    and m0: "malloc heap sz0 s = Some (ptr, t)" and ok0: "ptr \<noteq> NULL"
    and grow: "sz0 < sz"
    and m: "malloc heap sz t = Some (q, t1)" and ok: "q \<noteq> NULL"
  shows "\<exists>t'. realloc heap ptr sz t = Some (q, t') \<and> q \<noteq> ptr
     \<and> (\<forall>i. i < sz0 \<longrightarrow> memory t' (q + i) = memory t (ptr + i))"
proof -
  have ini': "0 <s start_addr t"
    using malloc_no_wrap(3) [OF ini inv small m0] ini by simp
  have inv': "region_inv t"
    using ini inv small m0 by (rule malloc_no_wrap(1))
  have old: "sz0 = load_size_t (memory t) (ptr - sizeof_header_s)"
    using malloc_header [OF m0 ok0] by simp
  have below: "unat ptr + unat sz0 \<le> unat (free_addr t)"
    using malloc_no_wrap(5) [OF ini inv small m0 ok0] by simp
  from realloc_grow_copies_below_cursor [OF ini' inv' ok0 old grow below m ok]
  show ?thesis
    by blast
qed

end
